theory Spec2Isabelle
  imports Main "HOL-Library.Word"
begin

section \<open>Errors\<close>

text \<open>
  Plain Go errors as they come out of \<^verbatim>\<open>database/sql\<close>, the driver and the statement
  serializer. \<open>ErrNoRows\<close> is \<^verbatim>\<open>sql.ErrNoRows\<close>; \<open>Wrapped\<close> is an error that
  unwraps to another one, which is what \<^verbatim>\<open>errors.Is\<close> follows.
\<close>

datatype go_error = ErrNoRows | ErrorString string | Wrapped string go_error

fun errs_Is :: "go_error \<Rightarrow> go_error \<Rightarrow> bool" where
  "errs_Is (Wrapped m inner) target = (Wrapped m inner = target \<or> errs_Is inner target)"
| "errs_Is ErrNoRows target = (ErrNoRows = target)"
| "errs_Is (ErrorString m) target = (ErrorString m = target)"

text \<open>
  The value of Go's \<^verbatim>\<open>error\<close> interface that the query functions return: either one of
  the classified errors of \<^verbatim>\<open>internal/errors\<close> (parent, id, message), or a plain error
  handed on as it is. \<open>RuntimePanic\<close> stands for a run-time panic (an index out of
  range), which is not an error return.
\<close>

datatype error =
    Plain go_error
  | InvalidArgumentError go_error string string
  | NotFoundError go_error string string
  | InternalError go_error string string
  | RuntimePanic string

definition ThrowInvalidArgument :: "go_error \<Rightarrow> string \<Rightarrow> string \<Rightarrow> error" where
  "ThrowInvalidArgument parent ident message = InvalidArgumentError parent ident message"

definition ThrowNotFound :: "go_error \<Rightarrow> string \<Rightarrow> string \<Rightarrow> error" where
  "ThrowNotFound parent ident message = NotFoundError parent ident message"

definition ThrowInternal :: "go_error \<Rightarrow> string \<Rightarrow> string \<Rightarrow> error" where
  "ThrowInternal parent ident message = InternalError parent ident message"

fun IsErrorInvalidArgument :: "error \<Rightarrow> bool" where
  "IsErrorInvalidArgument (InvalidArgumentError p i m) = True"
| "IsErrorInvalidArgument e = False"

fun IsNotFound :: "error \<Rightarrow> bool" where
  "IsNotFound (NotFoundError p i m) = True"
| "IsNotFound e = False"

fun IsInternal :: "error \<Rightarrow> bool" where
  "IsInternal (InternalError p i m) = True"
| "IsInternal e = False"

section \<open>The instance entity\<close>

text \<open>
  \<^verbatim>\<open>time.Time\<close> is an instant, \<^verbatim>\<open>domain.Step\<close> an integer enumeration and
  \<^verbatim>\<open>language.Tag\<close> a language tag, whose zero value is \<^verbatim>\<open>language.Und\<close>; a tag
  other than the undefined one is identified by its canonical text.
\<close>

datatype time_Time = Time int

type_synonym domain_Step = int

datatype language_Tag = Und | Tag string

record Instance =
  ID :: string
  ChangeDate :: time_Time
  CreationDate :: time_Time
  Sequence :: "64 word"
  GlobalOrgID :: string
  IAMProjectID :: string
  ConsoleID :: string
  ConsoleAppID :: string
  DefaultLanguage :: language_Tag
  SetupStarted :: domain_Step
  SetupDone :: domain_Step
  Host :: string

text \<open>\<^verbatim>\<open>new(Instance)\<close>: every field at its zero value.\<close>

definition new_Instance :: Instance where
  "new_Instance =
     \<lparr>ID = [], ChangeDate = Time 0, CreationDate = Time 0, Sequence = 0,
      GlobalOrgID = [], IAMProjectID = [], ConsoleID = [], ConsoleAppID = [],
      DefaultLanguage = Und, SetupStarted = 0, SetupDone = 0, Host = []\<rparr>"

record SearchResponse =
  Count :: "64 word"

record Instances =
  SearchResponse :: SearchResponse
  Instances :: "Instance list"

definition InstanceID :: "Instance \<Rightarrow> string" where
  "InstanceID i = ID i"

definition ProjectID :: "Instance \<Rightarrow> string" where
  "ProjectID i = IAMProjectID i"

definition ConsoleClientID :: "Instance \<Rightarrow> string" where
  "ConsoleClientID i = ConsoleID i"

definition ConsoleApplicationID :: "Instance \<Rightarrow> string" where
  "ConsoleApplicationID i = ConsoleAppID i"

definition RequestedDomain :: "Instance \<Rightarrow> string" where
  "RequestedDomain i = Host i"

text \<open>
  The request context carries the instance that \<^verbatim>\<open>authz.GetInstance\<close> hands out.
\<close>

record Context =
  ctx_instance :: Instance

definition GetInstance :: "Context \<Rightarrow> Instance" where
  "GetInstance ctx = ctx_instance ctx"

section \<open>Statements\<close>

text \<open>
  The tables and columns of the registry. A column stands for the text its
  \<^verbatim>\<open>identifier()\<close> renders; \<open>countColumn\<close> and the two columns of the domain table
  are declared in sibling files of the package.
\<close>

datatype table = instanceTable | instanceDomainTable

datatype Column =
    InstanceColumnID
  | InstanceColumnName
  | InstanceColumnCreationDate
  | InstanceColumnChangeDate
  | InstanceColumnSequence
  | InstanceColumnGlobalOrgID
  | InstanceColumnProjectID
  | InstanceColumnConsoleID
  | InstanceColumnConsoleAppID
  | InstanceColumnSetupStarted
  | InstanceColumnSetupDone
  | InstanceColumnDefaultLanguage
  | countColumn
  | InstanceDomainInstanceIDCol
  | InstanceDomainDomainCol

datatype sql_value = StringValue string | IntValue int | ListValue "sql_value list"

datatype Sqlizer = Eq Column sql_value | Expr string "sql_value list"

datatype placeholder = Question | Dollar

text \<open>
  The select builder of the statement library, as the data its calls collect. Turning
  it into statement text and arguments (\<open>ToSql\<close>) is the library's work: the
  operations below take that function as a parameter.
\<close>

record SelectBuilder =
  Columns :: "Column list"
  FromTable :: "table option"
  Joins :: "(Column \<times> Column) list"
  WhereParts :: "Sqlizer list"
  OrderBys :: "string list"
  Limit :: "64 word option"
  Offset :: "64 word option"
  PlaceholderFmt :: placeholder

type_synonym serializer = "SelectBuilder \<Rightarrow> go_error + (string \<times> sql_value list)"

definition sq_Select :: "Column list \<Rightarrow> SelectBuilder" where
  "sq_Select cols =
     \<lparr>Columns = cols, FromTable = None, Joins = [], WhereParts = [], OrderBys = [],
      Limit = None, Offset = None, PlaceholderFmt = Question\<rparr>"

definition sq_From :: "table \<Rightarrow> SelectBuilder \<Rightarrow> SelectBuilder" where
  "sq_From t b = b\<lparr>FromTable := Some t\<rparr>"

definition sq_LeftJoin :: "Column \<times> Column \<Rightarrow> SelectBuilder \<Rightarrow> SelectBuilder" where
  "sq_LeftJoin j b = b\<lparr>Joins := Joins b @ [j]\<rparr>"

definition sq_PlaceholderFormat :: "placeholder \<Rightarrow> SelectBuilder \<Rightarrow> SelectBuilder" where
  "sq_PlaceholderFormat f b = b\<lparr>PlaceholderFmt := f\<rparr>"

definition sq_Where :: "Sqlizer \<Rightarrow> SelectBuilder \<Rightarrow> SelectBuilder" where
  "sq_Where p b = b\<lparr>WhereParts := WhereParts b @ [p]\<rparr>"

definition join :: "Column \<Rightarrow> Column \<Rightarrow> Column \<times> Column" where
  "join a b = (a, b)"

text \<open>
  \<^verbatim>\<open>InstanceSearchQueries\<close>: the embedded search request and the search queries, each
  given by its \<^verbatim>\<open>toQuery\<close> method.
\<close>

record InstanceSearchQueries =
  SearchRequest_toQuery :: "SelectBuilder \<Rightarrow> SelectBuilder"
  Queries :: "(SelectBuilder \<Rightarrow> SelectBuilder) list"

definition toQuery :: "InstanceSearchQueries \<Rightarrow> SelectBuilder \<Rightarrow> SelectBuilder" where
  "toQuery q query = foldl (\<lambda>query sq. sq query) (SearchRequest_toQuery q query) (Queries q)"

section \<open>The database handle\<close>

text \<open>
  What one row decodes to: the eleven columns of the projection in the order of the
  select list.
\<close>

record instance_columns =
  col_id :: string
  col_creation_date :: time_Time
  col_change_date :: time_Time
  col_sequence :: "64 word"
  col_global_org_id :: string
  col_project_id :: string
  col_console_id :: string
  col_console_app_id :: string
  col_setup_started :: domain_Step
  col_setup_done :: domain_Step
  col_default_language :: string

text \<open>
  \<^verbatim>\<open>*sql.Row\<close> is given by what its \<^verbatim>\<open>Scan\<close> yields: an error (\<open>ErrNoRows\<close> when the
  statement matched no row) or the decoded columns. \<^verbatim>\<open>*sql.Rows\<close> holds the rows still
  to be read, each by what \<^verbatim>\<open>Scan\<close> yields on it (the columns and the trailing count),
  the error that ended the iteration, if one did (\<^verbatim>\<open>Next\<close> then answers false as at
  the end of the rows, and \<^verbatim>\<open>Err\<close> tells), whether another result set follows the
  one being read, and the error of the driver when the rows are released.
\<close>

datatype sql_Row = RowError go_error | RowValues instance_columns

definition row_Scan :: "sql_Row \<Rightarrow> go_error + instance_columns" where
  "row_Scan row = (case row of RowError err \<Rightarrow> Inl err | RowValues cols \<Rightarrow> Inr cols)"

record sql_Rows =
  pending :: "(go_error + instance_columns \<times> 64 word) list"
  iteration_error :: "go_error option"
  next_result_set :: bool
  release_error :: "go_error option"

definition rows_Err :: "sql_Rows \<Rightarrow> go_error option" where
  "rows_Err rows = iteration_error rows"

text \<open>
  \<^verbatim>\<open>Close\<close>, called once \<^verbatim>\<open>Next\<close> has answered false, which is where the scanner
  calls it. \<^verbatim>\<open>Next\<close> releases the rows itself when it answers false, and drops the
  driver's error, unless it stopped at the end of a result set that another one
  follows; \<^verbatim>\<open>Close\<close> on released rows returns nil. Only in the remaining case does
  this call release the rows and return the driver's error.
\<close>

definition rows_Close :: "sql_Rows \<Rightarrow> go_error option" where
  "rows_Close rows =
     (if iteration_error rows = None \<and> next_result_set rows then release_error rows else None)"

text \<open>
  The client answers a statement with rows; it keeps the list of the statements it was
  asked to execute, so that an operation that returns before executing leaves the
  client as it was.
\<close>

record db_client =
  answer_rows :: "Context \<Rightarrow> string \<Rightarrow> sql_value list \<Rightarrow> go_error + sql_Rows"
  answer_row :: "Context \<Rightarrow> string \<Rightarrow> sql_value list \<Rightarrow> sql_Row"
  executed :: "(string \<times> sql_value list) list"

definition QueryContext ::
  "db_client \<Rightarrow> Context \<Rightarrow> string \<Rightarrow> sql_value list \<Rightarrow> (go_error + sql_Rows) \<times> db_client" where
  "QueryContext c ctx stmt args =
     (answer_rows c ctx stmt args, c\<lparr>executed := executed c @ [(stmt, args)]\<rparr>)"

definition QueryRowContext ::
  "db_client \<Rightarrow> Context \<Rightarrow> string \<Rightarrow> sql_value list \<Rightarrow> sql_Row \<times> db_client" where
  "QueryRowContext c ctx stmt args =
     (answer_row c ctx stmt args, c\<lparr>executed := executed c @ [(stmt, args)]\<rparr>)"

record Queries =
  client :: db_client

section \<open>Library functions the operations call\<close>

text \<open>
  \<^verbatim>\<open>strings.Split(s, sep)\<close> for a separator of one byte: the pieces of \<open>s\<close> between
  the separators, in order; a string without the separator is the only piece.
\<close>

fun strings_Split :: "string \<Rightarrow> char \<Rightarrow> string list" where
  "strings_Split [] sep = [[]]"
| "strings_Split (c # cs) sep =
     (if c = sep then [] # strings_Split cs sep
      else (case strings_Split cs sep of
              [] \<Rightarrow> [[c]]
            | p # ps \<Rightarrow> (c # p) # ps))"

text \<open>
  \<^verbatim>\<open>language.Make\<close> parses a tag and belongs to the text library: the scanners take
  it as the parameter \<open>language_Make\<close>.
\<close>

type_synonym tag_parser = "string \<Rightarrow> language_Tag"

section \<open>Preparing statements and scanners\<close>

text \<open>The destinations \<^verbatim>\<open>Scan\<close> writes, in the order of the select list.\<close>

definition store_columns :: "Instance \<Rightarrow> instance_columns \<Rightarrow> Instance" where
  "store_columns instance cols =
     instance\<lparr>ID := col_id cols,
       CreationDate := col_creation_date cols,
       ChangeDate := col_change_date cols,
       Sequence := col_sequence cols,
       GlobalOrgID := col_global_org_id cols,
       IAMProjectID := col_project_id cols,
       ConsoleID := col_console_id cols,
       ConsoleAppID := col_console_app_id cols,
       SetupStarted := col_setup_started cols,
       SetupDone := col_setup_done cols\<rparr>"

definition prepareInstanceQuery ::
  "tag_parser \<Rightarrow> string \<Rightarrow> SelectBuilder \<times> (sql_Row \<Rightarrow> error + Instance)" where
  "prepareInstanceQuery language_Make host =
     (sq_PlaceholderFormat Dollar (sq_From instanceTable (sq_Select
        [InstanceColumnID, InstanceColumnCreationDate, InstanceColumnChangeDate,
         InstanceColumnSequence, InstanceColumnGlobalOrgID, InstanceColumnProjectID,
         InstanceColumnConsoleID, InstanceColumnConsoleAppID, InstanceColumnSetupStarted,
         InstanceColumnSetupDone, InstanceColumnDefaultLanguage])),
      \<lambda>row.
        (let instance = new_Instance\<lparr>Host := host\<rparr> in
         case row_Scan row of
           Inl err \<Rightarrow>
             if errs_Is err ErrNoRows
             then Inl (ThrowNotFound err ''QUERY-n0wng'' ''Errors.IAM.NotFound'')
             else Inl (ThrowInternal err ''QUERY-d9nw'' ''Errors.Internal'')
         | Inr cols \<Rightarrow>
             Inr ((store_columns instance cols)
                    \<lparr>DefaultLanguage := language_Make (col_default_language cols)\<rparr>)))"

text \<open>
  The loop of the multi-row scanner: \<open>instances\<close> and \<open>count\<close> are the two variables
  of the closure. The language column is read into a local that is not stored, and
  \<open>Host\<close> is left as \<^verbatim>\<open>new(Instance)\<close> made it.
\<close>

fun prepareInstancesQuery_loop ::
  "(go_error + instance_columns \<times> 64 word) list \<Rightarrow> Instance list \<Rightarrow> 64 word \<Rightarrow>
     error + (Instance list \<times> 64 word)" where
  "prepareInstancesQuery_loop [] instances count = Inr (instances, count)"
| "prepareInstancesQuery_loop (r # rs) instances count =
     (case r of
        Inl err \<Rightarrow> Inl (Plain err)
      | Inr (cols, n) \<Rightarrow>
          prepareInstancesQuery_loop rs (instances @ [store_columns new_Instance cols]) n)"

definition prepareInstancesQuery :: "SelectBuilder \<times> (sql_Rows \<Rightarrow> error + Instances)" where
  "prepareInstancesQuery =
     (sq_PlaceholderFormat Dollar (sq_From instanceTable (sq_Select
        [InstanceColumnID, InstanceColumnCreationDate, InstanceColumnChangeDate,
         InstanceColumnSequence, InstanceColumnGlobalOrgID, InstanceColumnProjectID,
         InstanceColumnConsoleID, InstanceColumnConsoleAppID, InstanceColumnSetupStarted,
         InstanceColumnSetupDone, InstanceColumnDefaultLanguage, countColumn])),
      \<lambda>rows.
        (case prepareInstancesQuery_loop (pending rows) [] 0 of
           Inl err \<Rightarrow> Inl err
         | Inr (instances, count) \<Rightarrow>
             (case rows_Close rows of
                Some err \<Rightarrow> Inl (ThrowInternal err ''QUERY-8nlWW'' ''Errors.Query.CloseRows'')
              | None \<Rightarrow>
                  Inr \<lparr>SearchResponse = \<lparr>Count = count\<rparr>, Instances = instances\<rparr>)))"

definition prepareInstanceDomainQuery ::
  "tag_parser \<Rightarrow> string \<Rightarrow> SelectBuilder \<times> (sql_Row \<Rightarrow> error + Instance)" where
  "prepareInstanceDomainQuery language_Make host =
     (sq_PlaceholderFormat Dollar
        (sq_LeftJoin (join InstanceDomainInstanceIDCol InstanceColumnID)
          (sq_From instanceTable (sq_Select
            [InstanceColumnID, InstanceColumnCreationDate, InstanceColumnChangeDate,
             InstanceColumnSequence, InstanceColumnGlobalOrgID, InstanceColumnProjectID,
             InstanceColumnConsoleID, InstanceColumnConsoleAppID, InstanceColumnSetupStarted,
             InstanceColumnSetupDone, InstanceColumnDefaultLanguage]))),
      \<lambda>row.
        (let instance = new_Instance\<lparr>Host := host\<rparr> in
         case row_Scan row of
           Inl err \<Rightarrow>
             if errs_Is err ErrNoRows
             then Inl (ThrowNotFound err ''QUERY-n0wng'' ''Errors.IAM.NotFound'')
             else Inl (ThrowInternal err ''QUERY-d9nw'' ''Errors.Internal'')
         | Inr cols \<Rightarrow>
             Inr ((store_columns instance cols)
                    \<lparr>DefaultLanguage := language_Make (col_default_language cols)\<rparr>)))"

section \<open>The query operations\<close>

text \<open>
  Every operation returns its result together with the \<open>Queries\<close> value after it, whose
  client has recorded the statements executed.
\<close>

definition SearchInstances ::
  "serializer \<Rightarrow> Queries \<Rightarrow> Context \<Rightarrow> InstanceSearchQueries \<Rightarrow> (error + Instances) \<times> Queries" where
  "SearchInstances ToSql q ctx queries =
     (case prepareInstancesQuery of (query, scan) \<Rightarrow>
        (case ToSql (toQuery queries query) of
           Inl err \<Rightarrow>
             (Inl (ThrowInvalidArgument err ''QUERY-M9fow'' ''Errors.Query.SQLStatement''), q)
         | Inr (stmt, args) \<Rightarrow>
             (case QueryContext (client q) ctx stmt args of
                (Inl err, c) \<Rightarrow>
                  (Inl (ThrowInternal err ''QUERY-3j98f'' ''Errors.Internal''), q\<lparr>client := c\<rparr>)
              | (Inr rows, c) \<Rightarrow>
                  (case scan rows of
                     Inl err \<Rightarrow> (Inl err, q\<lparr>client := c\<rparr>)
                   | Inr instances \<Rightarrow> (Inr instances, q\<lparr>client := c\<rparr>)))))"

definition Instance ::
  "serializer \<Rightarrow> tag_parser \<Rightarrow> Queries \<Rightarrow> Context \<Rightarrow> (error + Instance) \<times> Queries" where
  "Instance ToSql language_Make q ctx =
     (case prepareInstanceQuery language_Make (RequestedDomain (GetInstance ctx)) of
        (stmt, scan) \<Rightarrow>
        (case ToSql (sq_Where (Eq InstanceColumnID (StringValue (InstanceID (GetInstance ctx))))
                       stmt) of
           Inl err \<Rightarrow>
             (Inl (ThrowInternal err ''QUERY-d9ngs'' ''Errors.Query.SQLStatement''), q)
         | Inr (query, args) \<Rightarrow>
             (case QueryRowContext (client q) ctx query args of
                (row, c) \<Rightarrow> (scan row, q\<lparr>client := c\<rparr>))))"

definition InstanceByHost ::
  "serializer \<Rightarrow> tag_parser \<Rightarrow> Queries \<Rightarrow> Context \<Rightarrow> string \<Rightarrow> (error + Instance) \<times> Queries" where
  "InstanceByHost ToSql language_Make q ctx host =
     (case prepareInstanceDomainQuery language_Make host of
        (stmt, scan) \<Rightarrow>
        (case strings_Split host CHR '':'' of
           [] \<Rightarrow> (Inl (RuntimePanic ''index out of range [0] with length 0''), q)
         | domain # rest \<Rightarrow>
             (case ToSql (sq_Where (Eq InstanceDomainDomainCol (StringValue domain)) stmt) of
                Inl err \<Rightarrow>
                  (Inl (ThrowInternal err ''QUERY-SAfg2'' ''Errors.Query.SQLStatement''), q)
              | Inr (query, args) \<Rightarrow>
                  (case QueryRowContext (client q) ctx query args of
                     (row, c) \<Rightarrow> (scan row, q\<lparr>client := c\<rparr>)))))"

definition GetDefaultLanguage ::
  "serializer \<Rightarrow> tag_parser \<Rightarrow> Queries \<Rightarrow> Context \<Rightarrow> language_Tag \<times> Queries" where
  "GetDefaultLanguage ToSql language_Make q ctx =
     (case Instance ToSql language_Make q ctx of
        (Inl err, q') \<Rightarrow> (Und, q')
      | (Inr iam, q') \<Rightarrow> (DefaultLanguage iam, q'))"

section \<open>Example collaborators\<close>

text \<open>
  Concrete collaborators for the examples below: a serializer that always fails, one
  that renders a fixed text and hands on the bound values of the predicates, a tag
  parser that agrees with the text library on the empty string and on canonical tags,
  and a client whose tables hold one instance, bound to the domain
  \<open>tenant.example.com\<close>.
\<close>

definition failing_ToSql :: serializer where
  "failing_ToSql b = Inl (ErrorString ''select statements must have at least one result column'')"

fun sqlizer_args :: "Sqlizer \<Rightarrow> sql_value list" where
  "sqlizer_args (Eq c v) = [v]"
| "sqlizer_args (Expr t vs) = vs"

definition example_ToSql :: serializer where
  "example_ToSql b = Inr (''SELECT'', concat (map sqlizer_args (WhereParts b)))"

definition example_Make :: tag_parser where
  "example_Make s = (if s = [] then Und else Tag s)"

definition example_columns :: instance_columns where
  "example_columns =
     \<lparr>col_id = ''instance-1'', col_creation_date = Time 10, col_change_date = Time 20,
      col_sequence = 7, col_global_org_id = ''org-1'', col_project_id = ''project-1'',
      col_console_id = ''console-1'', col_console_app_id = ''app-1'',
      col_setup_started = 1, col_setup_done = 1, col_default_language = ''en''\<rparr>"

definition example_answer_row :: "Context \<Rightarrow> string \<Rightarrow> sql_value list \<Rightarrow> sql_Row" where
  "example_answer_row ctx stmt args =
     (if args = [StringValue ''tenant.example.com''] \<or> args = [StringValue ''instance-1'']
      then RowValues example_columns
      else RowError ErrNoRows)"

definition example_answer_rows ::
  "Context \<Rightarrow> string \<Rightarrow> sql_value list \<Rightarrow> go_error + sql_Rows" where
  "example_answer_rows ctx stmt args =
     Inr \<lparr>pending = [Inr (example_columns, 1)], iteration_error = None,
          next_result_set = False, release_error = None\<rparr>"

definition example_client :: db_client where
  "example_client =
     \<lparr>answer_rows = example_answer_rows, answer_row = example_answer_row, executed = []\<rparr>"

definition example_Queries :: Queries where
  "example_Queries = \<lparr>client = example_client\<rparr>"

definition example_ctx :: Context where
  "example_ctx =
     \<lparr>ctx_instance = new_Instance\<lparr>ID := ''instance-1'', Host := ''tenant.example.com:8443''\<rparr>\<rparr>"

definition unknown_ctx :: Context where
  "unknown_ctx = \<lparr>ctx_instance = new_Instance\<lparr>ID := ''instance-9''\<rparr>\<rparr>"

definition no_filter :: InstanceSearchQueries where
  "no_filter = \<lparr>SearchRequest_toQuery = (\<lambda>query. query), Queries = []\<rparr>"

text \<open>
  Row sets for the multi-row scanner: an empty one on which the driver's release
  fails, one whose second row does not decode, one whose iteration was broken off after
  the first of two rows, and one of two good rows that another result set follows and
  whose release fails; and the client that answers every collection statement with a
  given row set.
\<close>

definition client_answering :: "sql_Rows \<Rightarrow> db_client" where
  "client_answering rows =
     \<lparr>answer_rows = (\<lambda>ctx stmt args. Inr rows), answer_row = example_answer_row, executed = []\<rparr>"

definition empty_rows_failing_release :: sql_Rows where
  "empty_rows_failing_release =
     \<lparr>pending = [], iteration_error = None, next_result_set = False,
      release_error = Some (ErrorString ''driver: bad connection'')\<rparr>"

definition rows_second_undecodable :: sql_Rows where
  "rows_second_undecodable =
     \<lparr>pending =
        [Inr (example_columns, 2),
         Inl (ErrorString ''sql: Scan error on column index 4: converting NULL to string is unsupported'')],
      iteration_error = None, next_result_set = False, release_error = None\<rparr>"

definition rows_broken_off :: sql_Rows where
  "rows_broken_off =
     \<lparr>pending = [Inr (example_columns, 2)],
      iteration_error = Some (ErrorString ''unexpected EOF''), next_result_set = False,
      release_error = None\<rparr>"

definition two_rows_failing_close :: sql_Rows where
  "two_rows_failing_close =
     \<lparr>pending = [Inr (example_columns, 2), Inr (example_columns\<lparr>col_id := ''instance-2''\<rparr>, 2)],
      iteration_error = None, next_result_set = True,
      release_error = Some (ErrorString ''driver: bad connection'')\<rparr>"

section \<open>Splitting the host and unfolding the lookup by host\<close>

lemma strings_Split_nonempty: "strings_Split s sep \<noteq> []"
  by (induction s) (auto split: list.splits)

lemma strings_Split_first: "strings_Split s sep = p # ps \<Longrightarrow> p = takeWhile (\<lambda>c. c \<noteq> sep) s"
  by (induction s arbitrary: p ps) (auto simp: strings_Split_nonempty split: list.splits if_splits)

lemma strings_Split_takeWhile:
  "\<exists>ps. strings_Split s sep = takeWhile (\<lambda>c. c \<noteq> sep) s # ps"
  using strings_Split_nonempty [of s sep] strings_Split_first [of s sep]
  by (cases "strings_Split s sep") auto

lemma prepareInstanceDomainQuery_stmt:
  "fst (prepareInstanceDomainQuery M host) = fst (prepareInstanceDomainQuery M host')"
  by (simp add: prepareInstanceDomainQuery_def)

lemma InstanceByHost_unfold:
  "InstanceByHost T M q ctx host =
     (case T (sq_Where (Eq InstanceDomainDomainCol (StringValue (takeWhile (\<lambda>c. c \<noteq> CHR '':'') host)))
               (fst (prepareInstanceDomainQuery M host))) of
        Inl err \<Rightarrow> (Inl (ThrowInternal err ''QUERY-SAfg2'' ''Errors.Query.SQLStatement''), q)
      | Inr (query, args) \<Rightarrow>
          (snd (prepareInstanceDomainQuery M host) (answer_row (client q) ctx query args),
           q\<lparr>client := (client q)\<lparr>executed := executed (client q) @ [(query, args)]\<rparr>\<rparr>))"
proof -
  obtain ps where "strings_Split host CHR '':'' = takeWhile (\<lambda>c. c \<noteq> CHR '':'') host # ps"
    using strings_Split_takeWhile by blast
  then show ?thesis
    by (simp add: InstanceByHost_def QueryRowContext_def case_prod_unfold split: sum.splits)
qed

section \<open>Serialization failures\<close>

text \<open>
  Claim C1, as amended. When the serializer fails on the statement an operation has
  built, the operation returns at once and the client is left as it was, so nothing
  has been executed: \<open>SearchInstances\<close> returns an invalid-argument error, while
  \<open>Instance\<close> and \<open>InstanceByHost\<close> return an internal error.
\<close>

theorem C1_serialization_failure:
  "(ToSql (toQuery queries (fst prepareInstancesQuery)) = Inl err \<longrightarrow>
      SearchInstances ToSql q ctx queries =
        (Inl (ThrowInvalidArgument err ''QUERY-M9fow'' ''Errors.Query.SQLStatement''), q)
      \<and> IsErrorInvalidArgument (ThrowInvalidArgument err ''QUERY-M9fow'' ''Errors.Query.SQLStatement''))
   \<and> (ToSql (sq_Where (Eq InstanceColumnID (StringValue (InstanceID (GetInstance ctx))))
          (fst (prepareInstanceQuery M (RequestedDomain (GetInstance ctx))))) = Inl err \<longrightarrow>
      Instance ToSql M q ctx =
        (Inl (ThrowInternal err ''QUERY-d9ngs'' ''Errors.Query.SQLStatement''), q)
      \<and> IsInternal (ThrowInternal err ''QUERY-d9ngs'' ''Errors.Query.SQLStatement''))
   \<and> (ToSql (sq_Where (Eq InstanceDomainDomainCol (StringValue (takeWhile (\<lambda>c. c \<noteq> CHR '':'') host)))
          (fst (prepareInstanceDomainQuery M host))) = Inl err \<longrightarrow>
      InstanceByHost ToSql M q ctx host =
        (Inl (ThrowInternal err ''QUERY-SAfg2'' ''Errors.Query.SQLStatement''), q)
      \<and> IsInternal (ThrowInternal err ''QUERY-SAfg2'' ''Errors.Query.SQLStatement''))"
proof (intro conjI impI)
  assume "ToSql (toQuery queries (fst prepareInstancesQuery)) = Inl err"
  then show "SearchInstances ToSql q ctx queries =
        (Inl (ThrowInvalidArgument err ''QUERY-M9fow'' ''Errors.Query.SQLStatement''), q)"
    by (simp add: SearchInstances_def case_prod_unfold)
next
  assume "ToSql (sq_Where (Eq InstanceColumnID (StringValue (InstanceID (GetInstance ctx))))
          (fst (prepareInstanceQuery M (RequestedDomain (GetInstance ctx))))) = Inl err"
  then show "Instance ToSql M q ctx =
        (Inl (ThrowInternal err ''QUERY-d9ngs'' ''Errors.Query.SQLStatement''), q)"
    by (simp add: Instance_def case_prod_unfold)
next
  assume "ToSql (sq_Where (Eq InstanceDomainDomainCol (StringValue (takeWhile (\<lambda>c. c \<noteq> CHR '':'') host)))
          (fst (prepareInstanceDomainQuery M host))) = Inl err"
  then show "InstanceByHost ToSql M q ctx host =
        (Inl (ThrowInternal err ''QUERY-SAfg2'' ''Errors.Query.SQLStatement''), q)"
    by (simp add: InstanceByHost_unfold)
qed (simp_all add: ThrowInvalidArgument_def ThrowInternal_def)

theorem C1_serialization_failure_witness:
  "SearchInstances failing_ToSql example_Queries example_ctx no_filter =
     (Inl (InvalidArgumentError (ErrorString ''select statements must have at least one result column'')
         ''QUERY-M9fow'' ''Errors.Query.SQLStatement''), example_Queries)
   \<and> Instance failing_ToSql example_Make example_Queries example_ctx =
     (Inl (InternalError (ErrorString ''select statements must have at least one result column'')
         ''QUERY-d9ngs'' ''Errors.Query.SQLStatement''), example_Queries)
   \<and> InstanceByHost failing_ToSql example_Make example_Queries example_ctx ''tenant.example.com:8443'' =
     (Inl (InternalError (ErrorString ''select statements must have at least one result column'')
         ''QUERY-SAfg2'' ''Errors.Query.SQLStatement''), example_Queries)
   \<and> executed (client (snd (SearchInstances failing_ToSql example_Queries example_ctx no_filter))) = []"
  using C1_serialization_failure [of failing_ToSql no_filter
      "ErrorString ''select statements must have at least one result column''"
      example_Queries example_ctx example_Make "''tenant.example.com:8443''"]
  by (simp add: failing_ToSql_def ThrowInvalidArgument_def ThrowInternal_def
      example_Queries_def example_client_def)

text \<open>
  The claim as first stated asks for an invalid-argument error from all three
  operations. With a serializer that fails, \<open>Instance\<close> returns an internal error.
\<close>

theorem C1_counterexample:
  "failing_ToSql (sq_Where (Eq InstanceColumnID (StringValue (InstanceID (GetInstance example_ctx))))
      (fst (prepareInstanceQuery example_Make (RequestedDomain (GetInstance example_ctx)))))
     = Inl (ErrorString ''select statements must have at least one result column'')
   \<and> fst (Instance failing_ToSql example_Make example_Queries example_ctx)
     = Inl (InternalError (ErrorString ''select statements must have at least one result column'')
              ''QUERY-d9ngs'' ''Errors.Query.SQLStatement'')
   \<and> \<not> IsErrorInvalidArgument (InternalError (ErrorString ''select statements must have at least one result column'')
              ''QUERY-d9ngs'' ''Errors.Query.SQLStatement'')"
  by (simp add: Instance_def failing_ToSql_def ThrowInternal_def case_prod_unfold)

section \<open>The single-row scanners\<close>

lemma single_row_scanners_agree:
  "snd (prepareInstanceDomainQuery M host) = snd (prepareInstanceQuery M host)"
  by (simp add: prepareInstanceDomainQuery_def prepareInstanceQuery_def)

lemma scan_row_error:
  "snd (prepareInstanceQuery M host) (RowError err) =
     (if errs_Is err ErrNoRows
      then Inl (ThrowNotFound err ''QUERY-n0wng'' ''Errors.IAM.NotFound'')
      else Inl (ThrowInternal err ''QUERY-d9nw'' ''Errors.Internal''))"
  by (simp add: prepareInstanceQuery_def row_Scan_def)

lemma scan_row_values:
  "snd (prepareInstanceQuery M host) (RowValues cols) =
     Inr ((store_columns (new_Instance\<lparr>Host := host\<rparr>) cols)
            \<lparr>DefaultLanguage := M (col_default_language cols)\<rparr>)"
  by (simp add: prepareInstanceQuery_def row_Scan_def)

lemma scan_row_Host:
  "snd (prepareInstanceQuery M host) row = Inr i \<Longrightarrow> Host i = host"
  by (cases row) (auto simp: scan_row_error scan_row_values store_columns_def split: if_splits)

text \<open>
  Claim C2. When reading the row fails, both single-row scanners return a not-found
  error if the failure is \<^verbatim>\<open>sql.ErrNoRows\<close> (no row matched) and an internal error
  for every other failure.
\<close>

theorem C2_single_row_scan_errors:
  assumes "row_Scan row = Inl err"
  shows "(errs_Is err ErrNoRows \<longrightarrow>
            snd (prepareInstanceQuery M host) row =
              Inl (ThrowNotFound err ''QUERY-n0wng'' ''Errors.IAM.NotFound'')
          \<and> snd (prepareInstanceDomainQuery M host) row =
              Inl (ThrowNotFound err ''QUERY-n0wng'' ''Errors.IAM.NotFound'')
          \<and> IsNotFound (ThrowNotFound err ''QUERY-n0wng'' ''Errors.IAM.NotFound''))
       \<and> (\<not> errs_Is err ErrNoRows \<longrightarrow>
            snd (prepareInstanceQuery M host) row =
              Inl (ThrowInternal err ''QUERY-d9nw'' ''Errors.Internal'')
          \<and> snd (prepareInstanceDomainQuery M host) row =
              Inl (ThrowInternal err ''QUERY-d9nw'' ''Errors.Internal'')
          \<and> IsInternal (ThrowInternal err ''QUERY-d9nw'' ''Errors.Internal''))"
proof -
  from assms have row: "row = RowError err"
    by (cases row) (simp_all add: row_Scan_def)
  show ?thesis
    by (simp add: row single_row_scanners_agree scan_row_error ThrowNotFound_def ThrowInternal_def)
qed

theorem C2_single_row_scan_errors_witness:
  "row_Scan (RowError ErrNoRows) = Inl ErrNoRows
   \<and> errs_Is ErrNoRows ErrNoRows
   \<and> snd (prepareInstanceQuery example_Make ''h'') (RowError ErrNoRows) =
       Inl (NotFoundError ErrNoRows ''QUERY-n0wng'' ''Errors.IAM.NotFound'')
   \<and> snd (prepareInstanceDomainQuery example_Make ''h'') (RowError ErrNoRows) =
       Inl (NotFoundError ErrNoRows ''QUERY-n0wng'' ''Errors.IAM.NotFound'')
   \<and> \<not> errs_Is (ErrorString ''context canceled'') ErrNoRows
   \<and> snd (prepareInstanceQuery example_Make ''h'') (RowError (ErrorString ''context canceled'')) =
       Inl (InternalError (ErrorString ''context canceled'') ''QUERY-d9nw'' ''Errors.Internal'')
   \<and> snd (prepareInstanceDomainQuery example_Make ''h'') (RowError (ErrorString ''context canceled'')) =
       Inl (InternalError (ErrorString ''context canceled'') ''QUERY-d9nw'' ''Errors.Internal'')"
  using C2_single_row_scan_errors [of "RowError ErrNoRows" ErrNoRows example_Make "''h''"]
    C2_single_row_scan_errors [of "RowError (ErrorString ''context canceled'')"
      "ErrorString ''context canceled''" example_Make "''h''"]
  by (simp add: row_Scan_def ThrowNotFound_def ThrowInternal_def)

text \<open>
  Claim C6. A successful single-row scan stores \<open>language_Make\<close> of the language
  column as the default language of the instance, in both scanners. With the text
  library's parser, which makes the undefined tag of the empty string and the tag
  \<open>en\<close> of the text \<open>en\<close>, an empty column yields the undefined tag and \<open>en\<close>
  yields \<open>en\<close>.
\<close>

theorem C6_default_language_normalized:
  assumes "language_Make [] = Und" and "language_Make ''en'' = Tag ''en''"
    and "row_Scan row = Inr cols"
  shows "(\<exists>i. snd (prepareInstanceQuery language_Make host) row = Inr i
            \<and> snd (prepareInstanceDomainQuery language_Make host) row = Inr i
            \<and> DefaultLanguage i = language_Make (col_default_language cols)
            \<and> (col_default_language cols = [] \<longrightarrow> DefaultLanguage i = Und)
            \<and> (col_default_language cols = ''en'' \<longrightarrow> DefaultLanguage i = Tag ''en''))"
proof -
  from assms(3) have row: "row = RowValues cols"
    by (cases row) (simp_all add: row_Scan_def)
  show ?thesis
    using assms(1,2) by (simp add: row single_row_scanners_agree scan_row_values)
qed

theorem C6_default_language_normalized_witness:
  "example_Make [] = Und \<and> example_Make ''en'' = Tag ''en''
   \<and> row_Scan (RowValues example_columns) = Inr example_columns
   \<and> row_Scan (RowValues (example_columns\<lparr>col_default_language := []\<rparr>)) =
       Inr (example_columns\<lparr>col_default_language := []\<rparr>)
   \<and> (\<exists>i. snd (prepareInstanceQuery example_Make ''h'') (RowValues example_columns) = Inr i
        \<and> snd (prepareInstanceDomainQuery example_Make ''h'') (RowValues example_columns) = Inr i
        \<and> DefaultLanguage i = Tag ''en'')
   \<and> (\<exists>i. snd (prepareInstanceQuery example_Make ''h'')
              (RowValues (example_columns\<lparr>col_default_language := []\<rparr>)) = Inr i
        \<and> snd (prepareInstanceDomainQuery example_Make ''h'')
              (RowValues (example_columns\<lparr>col_default_language := []\<rparr>)) = Inr i
        \<and> DefaultLanguage i = Und)"
  using C6_default_language_normalized [of example_Make "RowValues example_columns"
      example_columns "''h''"]
    C6_default_language_normalized [of example_Make
      "RowValues (example_columns\<lparr>col_default_language := []\<rparr>)"
      "example_columns\<lparr>col_default_language := []\<rparr>" "''h''"]
  by (simp add: example_Make_def row_Scan_def example_columns_def)

section \<open>The multi-row scanner\<close>

lemma loop_all_decoded:
  "prepareInstancesQuery_loop (map Inr vs) acc c =
     Inr (acc @ map (\<lambda>v. store_columns new_Instance (fst v)) vs,
          (if vs = [] then c else snd (last vs)))"
  by (induction vs arbitrary: acc c) (auto simp: case_prod_unfold)

lemma loop_first_failure:
  "prepareInstancesQuery_loop (map Inr vs @ Inl err # rest) acc c = Inl (Plain err)"
  by (induction vs arbitrary: acc c) (auto simp: case_prod_unfold)

lemma loop_Host:
  "prepareInstancesQuery_loop rs acc c = Inr (insts, n) \<Longrightarrow>
     \<forall>i \<in> set acc. Host i = [] \<Longrightarrow> \<forall>i \<in> set insts. Host i = []"
proof (induction rs arbitrary: acc c)
  case Nil
  then show ?case by simp
next
  case (Cons r rs)
  show ?case
  proof (cases r)
    case (Inl err)
    with Cons.prems show ?thesis by simp
  next
    case (Inr v)
    obtain cols k where v: "v = (cols, k)" by (cases v)
    have "\<forall>i \<in> set (acc @ [store_columns new_Instance cols]). Host i = []"
      using Cons.prems(2) by (simp add: store_columns_def new_Instance_def)
    moreover have "prepareInstancesQuery_loop rs (acc @ [store_columns new_Instance cols]) k = Inr (insts, n)"
      using Cons.prems(1) Inr v by simp
    ultimately show ?thesis
      using Cons.IH by blast
  qed
qed

lemma scan_rows_unfold:
  "snd prepareInstancesQuery rows =
     (case prepareInstancesQuery_loop (pending rows) [] 0 of
        Inl err \<Rightarrow> Inl err
      | Inr (instances, count) \<Rightarrow>
          (case rows_Close rows of
             Some err \<Rightarrow> Inl (ThrowInternal err ''QUERY-8nlWW'' ''Errors.Query.CloseRows'')
           | None \<Rightarrow> Inr \<lparr>SearchResponse = \<lparr>Count = count\<rparr>, Instances = instances\<rparr>))"
  by (simp add: prepareInstancesQuery_def)

lemma SearchInstances_unfold:
  "ToSql (toQuery queries (fst prepareInstancesQuery)) = Inr (stmt, args) \<Longrightarrow>
   answer_rows (client q) ctx stmt args = Inr rows \<Longrightarrow>
   SearchInstances ToSql q ctx queries =
     (snd prepareInstancesQuery rows,
      q\<lparr>client := (client q)\<lparr>executed := executed (client q) @ [(stmt, args)]\<rparr>\<rparr>)"
  by (simp add: SearchInstances_def QueryContext_def case_prod_unfold split: sum.splits)

lemma SearchInstances_result:
  "fst (SearchInstances ToSql q ctx queries) = Inr r \<Longrightarrow>
     \<exists>rows. snd prepareInstancesQuery rows = Inr r"
  by (auto simp: SearchInstances_def QueryContext_def case_prod_unfold split: sum.splits)

text \<open>
  Claim C3. When a row fails to decode, the multi-row scanner stops there and returns
  no instances, whatever it has accumulated. The error it returns is the decode error
  itself, handed on as it is: it is not an internal error, and \<open>SearchInstances\<close>
  passes it to its caller unchanged.
\<close>

theorem C3_row_decode_failure:
  assumes "pending rows = map Inr vs @ Inl err # rest"
  shows "snd prepareInstancesQuery rows = Inl (Plain err)
       \<and> \<not> IsInternal (Plain err)
       \<and> (ToSql (toQuery queries (fst prepareInstancesQuery)) = Inr (stmt, args)
            \<and> answer_rows (client q) ctx stmt args = Inr rows \<longrightarrow>
          fst (SearchInstances ToSql q ctx queries) = Inl (Plain err))"
proof -
  have scan: "snd prepareInstancesQuery rows = Inl (Plain err)"
    by (simp add: scan_rows_unfold assms loop_first_failure)
  then show ?thesis
    by (auto simp: SearchInstances_unfold)
qed

theorem C3_row_decode_failure_witness:
  "pending rows_second_undecodable =
     map Inr [(example_columns, 2)] @
       Inl (ErrorString ''sql: Scan error on column index 4: converting NULL to string is unsupported'') # []
   \<and> snd prepareInstancesQuery rows_second_undecodable =
       Inl (Plain (ErrorString ''sql: Scan error on column index 4: converting NULL to string is unsupported''))
   \<and> \<not> IsInternal (Plain (ErrorString ''sql: Scan error on column index 4: converting NULL to string is unsupported''))
   \<and> fst (SearchInstances example_ToSql \<lparr>client = client_answering rows_second_undecodable\<rparr>
          example_ctx no_filter) =
       Inl (Plain (ErrorString ''sql: Scan error on column index 4: converting NULL to string is unsupported''))"
  using C3_row_decode_failure [of rows_second_undecodable "[(example_columns, 2)]"
      "ErrorString ''sql: Scan error on column index 4: converting NULL to string is unsupported''" "[]"
      example_ToSql no_filter "''SELECT''" "[]"
      "\<lparr>client = client_answering rows_second_undecodable\<rparr>" example_ctx]
  by (simp add: rows_second_undecodable_def example_ToSql_def no_filter_def toQuery_def
      prepareInstancesQuery_def sq_Select_def sq_From_def sq_PlaceholderFormat_def
      client_answering_def)

text \<open>
  Claim C4. For the result set of a collection query that holds zero rows (the one
  result set of the statement, none following it), the multi-row scanner returns
  successfully with an empty sequence of instances and the count zero, and so does
  \<open>SearchInstances\<close>, also when the driver fails to release the rows. On zero rows
  the scanner never returns a not-found error.
\<close>

theorem C4_zero_rows:
  assumes "pending rows = []"
  shows "(\<not> next_result_set rows \<longrightarrow>
            snd prepareInstancesQuery rows = Inr \<lparr>SearchResponse = \<lparr>Count = 0\<rparr>, Instances = []\<rparr>
          \<and> (ToSql (toQuery queries (fst prepareInstancesQuery)) = Inr (stmt, args)
                \<and> answer_rows (client q) ctx stmt args = Inr rows \<longrightarrow>
              fst (SearchInstances ToSql q ctx queries) =
                Inr \<lparr>SearchResponse = \<lparr>Count = 0\<rparr>, Instances = []\<rparr>))
       \<and> (\<forall>e. snd prepareInstancesQuery rows = Inl e \<longrightarrow> \<not> IsNotFound e)"
proof -
  have "\<not> next_result_set rows \<Longrightarrow>
      snd prepareInstancesQuery rows = Inr \<lparr>SearchResponse = \<lparr>Count = 0\<rparr>, Instances = []\<rparr>"
    by (simp add: scan_rows_unfold assms rows_Close_def)
  moreover have "\<forall>e. snd prepareInstancesQuery rows = Inl e \<longrightarrow> \<not> IsNotFound e"
    by (auto simp: scan_rows_unfold assms ThrowInternal_def split: option.splits)
  ultimately show ?thesis
    by (auto simp: SearchInstances_unfold)
qed

theorem C4_zero_rows_witness:
  "pending empty_rows_failing_release = []
   \<and> \<not> next_result_set empty_rows_failing_release
   \<and> release_error empty_rows_failing_release = Some (ErrorString ''driver: bad connection'')
   \<and> snd prepareInstancesQuery empty_rows_failing_release =
       Inr \<lparr>SearchResponse = \<lparr>Count = 0\<rparr>, Instances = []\<rparr>
   \<and> fst (SearchInstances example_ToSql \<lparr>client = client_answering empty_rows_failing_release\<rparr>
          example_ctx no_filter) =
       Inr \<lparr>SearchResponse = \<lparr>Count = 0\<rparr>, Instances = []\<rparr>"
  using C4_zero_rows [of empty_rows_failing_release
      example_ToSql no_filter "''SELECT''" "[]"
      "\<lparr>client = client_answering empty_rows_failing_release\<rparr>" example_ctx]
  by (simp add: empty_rows_failing_release_def example_ToSql_def no_filter_def toQuery_def
      prepareInstancesQuery_def sq_Select_def sq_From_def sq_PlaceholderFormat_def
      client_answering_def)

text \<open>
  Claim C8. When every row decodes and releasing the rows fails, the multi-row scanner
  returns an internal error in place of the instances it has accumulated, and
  \<open>SearchInstances\<close> returns that error.
\<close>

theorem C8_close_failure:
  assumes "pending rows = map Inr vs" and "rows_Close rows = Some err"
  shows "snd prepareInstancesQuery rows =
           Inl (ThrowInternal err ''QUERY-8nlWW'' ''Errors.Query.CloseRows'')
       \<and> IsInternal (ThrowInternal err ''QUERY-8nlWW'' ''Errors.Query.CloseRows'')
       \<and> (ToSql (toQuery queries (fst prepareInstancesQuery)) = Inr (stmt, args)
            \<and> answer_rows (client q) ctx stmt args = Inr rows \<longrightarrow>
          fst (SearchInstances ToSql q ctx queries) =
            Inl (ThrowInternal err ''QUERY-8nlWW'' ''Errors.Query.CloseRows''))"
proof -
  have "snd prepareInstancesQuery rows =
           Inl (ThrowInternal err ''QUERY-8nlWW'' ''Errors.Query.CloseRows'')"
    by (simp add: scan_rows_unfold assms loop_all_decoded)
  then show ?thesis
    by (auto simp: SearchInstances_unfold ThrowInternal_def)
qed

theorem C8_close_failure_witness:
  "pending two_rows_failing_close =
     map Inr [(example_columns, 2), (example_columns\<lparr>col_id := ''instance-2''\<rparr>, 2)]
   \<and> rows_Close two_rows_failing_close = Some (ErrorString ''driver: bad connection'')
   \<and> snd prepareInstancesQuery two_rows_failing_close =
       Inl (InternalError (ErrorString ''driver: bad connection'') ''QUERY-8nlWW'' ''Errors.Query.CloseRows'')
   \<and> fst (SearchInstances example_ToSql \<lparr>client = client_answering two_rows_failing_close\<rparr>
          example_ctx no_filter) =
       Inl (InternalError (ErrorString ''driver: bad connection'') ''QUERY-8nlWW'' ''Errors.Query.CloseRows'')"
  using C8_close_failure [of two_rows_failing_close
      "[(example_columns, 2), (example_columns\<lparr>col_id := ''instance-2''\<rparr>, 2)]"
      "ErrorString ''driver: bad connection''"
      example_ToSql no_filter "''SELECT''" "[]"
      "\<lparr>client = client_answering two_rows_failing_close\<rparr>" example_ctx]
  by (simp add: two_rows_failing_close_def rows_Close_def ThrowInternal_def
      example_ToSql_def no_filter_def toQuery_def
      prepareInstancesQuery_def sq_Select_def sq_From_def sq_PlaceholderFormat_def
      client_answering_def)

text \<open>
  Claim C10. Every instance of a successful \<open>SearchInstances\<close> result has an empty
  \<open>Host\<close>: the multi-row scanner never writes that field.
\<close>

theorem C10_search_leaves_Host_empty:
  assumes "fst (SearchInstances ToSql q ctx queries) = Inr r"
  shows "\<forall>i \<in> set (Instances r). Host i = []"
proof -
  obtain rows where scan: "snd prepareInstancesQuery rows = Inr r"
    using assms SearchInstances_result by blast
  then obtain insts n where loop: "prepareInstancesQuery_loop (pending rows) [] 0 = Inr (insts, n)"
    and r: "Instances r = insts"
    by (auto simp: scan_rows_unfold split: sum.splits option.splits)
  from loop_Host [OF loop] r show ?thesis by simp
qed

theorem C10_search_leaves_Host_empty_witness:
  "fst (SearchInstances example_ToSql example_Queries example_ctx no_filter) =
     Inr \<lparr>SearchResponse = \<lparr>Count = 1\<rparr>, Instances = [store_columns new_Instance example_columns]\<rparr>
   \<and> Host (store_columns new_Instance example_columns) = []"
  using C10_search_leaves_Host_empty [of example_ToSql example_Queries example_ctx no_filter
      "\<lparr>SearchResponse = \<lparr>Count = 1\<rparr>, Instances = [store_columns new_Instance example_columns]\<rparr>"]
  by (simp add: SearchInstances_def QueryContext_def case_prod_unfold example_ToSql_def
      example_Queries_def example_client_def example_answer_rows_def no_filter_def toQuery_def
      scan_rows_unfold rows_Close_def)

section \<open>Lookups by id and by host\<close>

lemma Instance_unfold:
  "Instance T M q ctx =
     (case T (sq_Where (Eq InstanceColumnID (StringValue (InstanceID (GetInstance ctx))))
               (fst (prepareInstanceQuery M (RequestedDomain (GetInstance ctx))))) of
        Inl err \<Rightarrow> (Inl (ThrowInternal err ''QUERY-d9ngs'' ''Errors.Query.SQLStatement''), q)
      | Inr (query, args) \<Rightarrow>
          (snd (prepareInstanceQuery M (RequestedDomain (GetInstance ctx)))
             (answer_row (client q) ctx query args),
           q\<lparr>client := (client q)\<lparr>executed := executed (client q) @ [(query, args)]\<rparr>\<rparr>))"
  by (simp add: Instance_def QueryRowContext_def case_prod_unfold split: sum.splits)

lemma scan_row_modulo_Host:
  "map_sum (\<lambda>e. e) (\<lambda>i. i\<lparr>Host := h\<rparr>) (snd (prepareInstanceQuery M host) row) =
   map_sum (\<lambda>e. e) (\<lambda>i. i\<lparr>Host := h\<rparr>) (snd (prepareInstanceQuery M host') row)"
  by (cases row) (simp_all add: scan_row_error scan_row_values store_columns_def)

text \<open>
  Claim C5. \<open>InstanceByHost\<close> compares the domain column with the part of the host
  before its first colon (the first piece of the split). Hence looking up a host and
  looking up the host without its port give the same error or instances that agree in
  every field but \<open>Host\<close>, and leave the client in the same state.
\<close>

theorem C5_port_is_stripped:
  "(\<exists>rest. strings_Split host CHR '':'' = takeWhile (\<lambda>c. c \<noteq> CHR '':'') host # rest)
   \<and> InstanceByHost ToSql M q ctx host =
       (case ToSql (sq_Where (Eq InstanceDomainDomainCol
                       (StringValue (takeWhile (\<lambda>c. c \<noteq> CHR '':'') host)))
                     (fst (prepareInstanceDomainQuery M host))) of
          Inl err \<Rightarrow> (Inl (ThrowInternal err ''QUERY-SAfg2'' ''Errors.Query.SQLStatement''), q)
        | Inr (query, args) \<Rightarrow>
            (snd (prepareInstanceDomainQuery M host) (answer_row (client q) ctx query args),
             q\<lparr>client := (client q)\<lparr>executed := executed (client q) @ [(query, args)]\<rparr>\<rparr>))
   \<and> map_sum (\<lambda>e. e) (\<lambda>i. i\<lparr>Host := h\<rparr>) (fst (InstanceByHost ToSql M q ctx host)) =
     map_sum (\<lambda>e. e) (\<lambda>i. i\<lparr>Host := h\<rparr>)
       (fst (InstanceByHost ToSql M q ctx (takeWhile (\<lambda>c. c \<noteq> CHR '':'') host)))
   \<and> snd (InstanceByHost ToSql M q ctx host) =
     snd (InstanceByHost ToSql M q ctx (takeWhile (\<lambda>c. c \<noteq> CHR '':'') host))"
proof (intro conjI)
  show "\<exists>rest. strings_Split host CHR '':'' = takeWhile (\<lambda>c. c \<noteq> CHR '':'') host # rest"
    by (rule strings_Split_takeWhile)
next
  show "InstanceByHost ToSql M q ctx host =
       (case ToSql (sq_Where (Eq InstanceDomainDomainCol
                       (StringValue (takeWhile (\<lambda>c. c \<noteq> CHR '':'') host)))
                     (fst (prepareInstanceDomainQuery M host))) of
          Inl err \<Rightarrow> (Inl (ThrowInternal err ''QUERY-SAfg2'' ''Errors.Query.SQLStatement''), q)
        | Inr (query, args) \<Rightarrow>
            (snd (prepareInstanceDomainQuery M host) (answer_row (client q) ctx query args),
             q\<lparr>client := (client q)\<lparr>executed := executed (client q) @ [(query, args)]\<rparr>\<rparr>))"
    by (rule InstanceByHost_unfold)
next
  let ?d = "takeWhile (\<lambda>c. c \<noteq> CHR '':'') host"
  have stmt: "fst (prepareInstanceDomainQuery M ?d) = fst (prepareInstanceDomainQuery M host)"
    by (rule prepareInstanceDomainQuery_stmt)
  show "map_sum (\<lambda>e. e) (\<lambda>i. i\<lparr>Host := h\<rparr>) (fst (InstanceByHost ToSql M q ctx host)) =
     map_sum (\<lambda>e. e) (\<lambda>i. i\<lparr>Host := h\<rparr>) (fst (InstanceByHost ToSql M q ctx ?d))"
    by (simp add: InstanceByHost_unfold [of _ _ _ _ host] InstanceByHost_unfold [of _ _ _ _ ?d]
        takeWhile_idem stmt single_row_scanners_agree
        scan_row_modulo_Host [of h M host _ ?d] split: sum.splits)
  show "snd (InstanceByHost ToSql M q ctx host) = snd (InstanceByHost ToSql M q ctx ?d)"
    by (simp add: InstanceByHost_unfold [of _ _ _ _ host] InstanceByHost_unfold [of _ _ _ _ ?d]
        takeWhile_idem stmt split: sum.splits)
qed

theorem C5_port_is_stripped_witness:
  "strings_Split ''tenant.example.com:8443'' CHR '':'' = [''tenant.example.com'', ''8443'']
   \<and> takeWhile (\<lambda>c. c \<noteq> CHR '':'') ''tenant.example.com:8443'' = ''tenant.example.com''
   \<and> fst (InstanceByHost example_ToSql example_Make example_Queries example_ctx
          ''tenant.example.com:8443'') =
       Inr ((store_columns new_Instance example_columns)
              \<lparr>DefaultLanguage := Tag ''en'', Host := ''tenant.example.com:8443''\<rparr>)
   \<and> fst (InstanceByHost example_ToSql example_Make example_Queries example_ctx
          ''tenant.example.com'') =
       Inr ((store_columns new_Instance example_columns)
              \<lparr>DefaultLanguage := Tag ''en'', Host := ''tenant.example.com''\<rparr>)
   \<and> executed (client (snd (InstanceByHost example_ToSql example_Make example_Queries example_ctx
          ''tenant.example.com:8443''))) = [(''SELECT'', [StringValue ''tenant.example.com''])]
   \<and> map_sum (\<lambda>e. e) (\<lambda>i. i\<lparr>Host := []\<rparr>)
         (fst (InstanceByHost example_ToSql example_Make example_Queries example_ctx
            ''tenant.example.com:8443'')) =
       map_sum (\<lambda>e. e) (\<lambda>i. i\<lparr>Host := []\<rparr>)
         (fst (InstanceByHost example_ToSql example_Make example_Queries example_ctx
            ''tenant.example.com''))"
proof -
  have strip: "takeWhile (\<lambda>c. c \<noteq> CHR '':'') ''tenant.example.com:8443'' = ''tenant.example.com''"
    by simp
  have split: "strings_Split ''tenant.example.com:8443'' CHR '':'' = [''tenant.example.com'', ''8443'']"
    by simp
  have bare: "fst (InstanceByHost example_ToSql example_Make example_Queries example_ctx
          ''tenant.example.com'') =
      Inr ((store_columns new_Instance example_columns)
              \<lparr>DefaultLanguage := Tag ''en'', Host := ''tenant.example.com''\<rparr>)"
    by (simp add: InstanceByHost_unfold example_ToSql_def sq_Where_def
        prepareInstanceDomainQuery_def sq_LeftJoin_def
        sq_Select_def sq_From_def sq_PlaceholderFormat_def example_Queries_def
        example_client_def example_answer_row_def
        new_Instance_def row_Scan_def store_columns_def
        example_columns_def example_Make_def)
  have full: "fst (InstanceByHost example_ToSql example_Make example_Queries example_ctx
          ''tenant.example.com:8443'') =
      Inr ((store_columns new_Instance example_columns)
              \<lparr>DefaultLanguage := Tag ''en'', Host := ''tenant.example.com:8443''\<rparr>)"
    by (simp add: InstanceByHost_unfold example_ToSql_def sq_Where_def
        prepareInstanceDomainQuery_def sq_LeftJoin_def
        sq_Select_def sq_From_def sq_PlaceholderFormat_def example_Queries_def
        example_client_def example_answer_row_def
        new_Instance_def row_Scan_def store_columns_def
        example_columns_def example_Make_def)
  have log: "executed (client (snd (InstanceByHost example_ToSql example_Make example_Queries
          example_ctx ''tenant.example.com:8443''))) =
      [(''SELECT'', [StringValue ''tenant.example.com''])]"
    by (simp add: InstanceByHost_unfold example_ToSql_def sq_Where_def
        prepareInstanceDomainQuery_def sq_LeftJoin_def
        sq_Select_def sq_From_def sq_PlaceholderFormat_def example_Queries_def
        example_client_def)
  have same: "map_sum (\<lambda>e. e) (\<lambda>i. i\<lparr>Host := []\<rparr>)
         (fst (InstanceByHost example_ToSql example_Make example_Queries example_ctx
            ''tenant.example.com:8443'')) =
       map_sum (\<lambda>e. e) (\<lambda>i. i\<lparr>Host := []\<rparr>)
         (fst (InstanceByHost example_ToSql example_Make example_Queries example_ctx
            ''tenant.example.com''))"
    using C5_port_is_stripped [of "''tenant.example.com:8443''" example_ToSql example_Make
      example_Queries example_ctx "[]"]
    unfolding strip by (elim conjE)
  from split strip full bare log same show ?thesis
    by - (intro conjI, assumption+)
qed

text \<open>
  Claim C7. \<open>GetDefaultLanguage\<close> returns a language tag and no error: the undefined
  tag whenever \<open>Instance\<close> fails, whatever the error, and the default language of the
  instance when \<open>Instance\<close> succeeds.
\<close>

theorem C7_default_language_fallback:
  "(\<forall>e. fst (Instance ToSql M q ctx) = Inl e \<longrightarrow> fst (GetDefaultLanguage ToSql M q ctx) = Und)
   \<and> (\<forall>i. fst (Instance ToSql M q ctx) = Inr i \<longrightarrow>
          fst (GetDefaultLanguage ToSql M q ctx) = DefaultLanguage i)
   \<and> snd (GetDefaultLanguage ToSql M q ctx) = snd (Instance ToSql M q ctx)"
  by (cases "Instance ToSql M q ctx") (auto simp: GetDefaultLanguage_def split: sum.splits)

theorem C7_default_language_fallback_witness:
  "fst (Instance example_ToSql example_Make example_Queries unknown_ctx) =
     Inl (NotFoundError ErrNoRows ''QUERY-n0wng'' ''Errors.IAM.NotFound'')
   \<and> fst (GetDefaultLanguage example_ToSql example_Make example_Queries unknown_ctx) = Und
   \<and> fst (Instance failing_ToSql example_Make example_Queries example_ctx) =
     Inl (InternalError (ErrorString ''select statements must have at least one result column'')
            ''QUERY-d9ngs'' ''Errors.Query.SQLStatement'')
   \<and> fst (GetDefaultLanguage failing_ToSql example_Make example_Queries example_ctx) = Und
   \<and> fst (Instance example_ToSql example_Make example_Queries example_ctx) =
       Inr ((store_columns new_Instance example_columns)
              \<lparr>DefaultLanguage := Tag ''en'', Host := ''tenant.example.com:8443''\<rparr>)
   \<and> fst (GetDefaultLanguage example_ToSql example_Make example_Queries example_ctx) = Tag ''en''"
proof -
  have unknown: "fst (Instance example_ToSql example_Make example_Queries unknown_ctx) =
      Inl (NotFoundError ErrNoRows ''QUERY-n0wng'' ''Errors.IAM.NotFound'')"
    by (simp add: Instance_unfold example_ToSql_def sq_Where_def prepareInstanceQuery_def
        sq_Select_def sq_From_def sq_PlaceholderFormat_def example_Queries_def
        example_client_def example_answer_row_def unknown_ctx_def GetInstance_def
        InstanceID_def new_Instance_def row_Scan_def ThrowNotFound_def)
  have failing: "fst (Instance failing_ToSql example_Make example_Queries example_ctx) =
      Inl (InternalError (ErrorString ''select statements must have at least one result column'')
            ''QUERY-d9ngs'' ''Errors.Query.SQLStatement'')"
    by (simp add: Instance_unfold failing_ToSql_def ThrowInternal_def)
  have known: "fst (Instance example_ToSql example_Make example_Queries example_ctx) =
      Inr ((store_columns new_Instance example_columns)
              \<lparr>DefaultLanguage := Tag ''en'', Host := ''tenant.example.com:8443''\<rparr>)"
    by (simp add: Instance_unfold example_ToSql_def sq_Where_def prepareInstanceQuery_def
        sq_Select_def sq_From_def sq_PlaceholderFormat_def example_Queries_def
        example_client_def example_answer_row_def example_ctx_def GetInstance_def
        InstanceID_def RequestedDomain_def new_Instance_def row_Scan_def store_columns_def
        example_columns_def example_Make_def)
  show ?thesis
    using C7_default_language_fallback [of example_ToSql example_Make example_Queries unknown_ctx]
      C7_default_language_fallback [of failing_ToSql example_Make example_Queries example_ctx]
      C7_default_language_fallback [of example_ToSql example_Make example_Queries example_ctx]
    by (simp add: unknown failing known)
qed

text \<open>
  Claim C9. An instance returned by \<open>Instance\<close> has the requested domain of the
  context as its \<open>Host\<close>; an instance returned by \<open>InstanceByHost\<close> has the host
  string it was called with, port included.
\<close>

theorem C9_Host_is_supplied_host:
  "(\<forall>i. fst (Instance ToSql M q ctx) = Inr i \<longrightarrow> Host i = RequestedDomain (GetInstance ctx))
   \<and> (\<forall>i. fst (InstanceByHost ToSql M q ctx host) = Inr i \<longrightarrow>
          Host i = host \<and> RequestedDomain i = host)"
proof (intro conjI allI impI)
  fix i assume "fst (Instance ToSql M q ctx) = Inr i"
  then have "\<exists>row. snd (prepareInstanceQuery M (RequestedDomain (GetInstance ctx))) row = Inr i"
    by (auto simp: Instance_unfold split: sum.splits)
  then show "Host i = RequestedDomain (GetInstance ctx)"
    using scan_row_Host by blast
next
  fix i assume "fst (InstanceByHost ToSql M q ctx host) = Inr i"
  then have "\<exists>row. snd (prepareInstanceQuery M host) row = Inr i"
    by (auto simp: InstanceByHost_unfold single_row_scanners_agree split: sum.splits)
  then show host: "Host i = host"
    using scan_row_Host by blast
  then show "RequestedDomain i = host"
    by (simp add: RequestedDomain_def)
qed

theorem C9_Host_is_supplied_host_witness:
  "RequestedDomain (GetInstance example_ctx) = ''tenant.example.com:8443''
   \<and> fst (Instance example_ToSql example_Make example_Queries example_ctx) =
       Inr ((store_columns new_Instance example_columns)
              \<lparr>DefaultLanguage := Tag ''en'', Host := ''tenant.example.com:8443''\<rparr>)
   \<and> fst (InstanceByHost example_ToSql example_Make example_Queries example_ctx
          ''tenant.example.com:8443'') =
       Inr ((store_columns new_Instance example_columns)
              \<lparr>DefaultLanguage := Tag ''en'', Host := ''tenant.example.com:8443''\<rparr>)
   \<and> Host ((store_columns new_Instance example_columns)
              \<lparr>DefaultLanguage := Tag ''en'', Host := ''tenant.example.com:8443''\<rparr>) =
       ''tenant.example.com:8443''"
proof -
  have by_id: "fst (Instance example_ToSql example_Make example_Queries example_ctx) =
      Inr ((store_columns new_Instance example_columns)
              \<lparr>DefaultLanguage := Tag ''en'', Host := ''tenant.example.com:8443''\<rparr>)"
    by (simp add: Instance_unfold example_ToSql_def sq_Where_def prepareInstanceQuery_def
        sq_Select_def sq_From_def sq_PlaceholderFormat_def example_Queries_def
        example_client_def example_answer_row_def example_ctx_def GetInstance_def
        InstanceID_def RequestedDomain_def new_Instance_def row_Scan_def store_columns_def
        example_columns_def example_Make_def)
  have by_host: "fst (InstanceByHost example_ToSql example_Make example_Queries example_ctx
          ''tenant.example.com:8443'') =
      Inr ((store_columns new_Instance example_columns)
              \<lparr>DefaultLanguage := Tag ''en'', Host := ''tenant.example.com:8443''\<rparr>)"
    by (simp add: InstanceByHost_unfold example_ToSql_def sq_Where_def
        prepareInstanceDomainQuery_def sq_LeftJoin_def
        sq_Select_def sq_From_def sq_PlaceholderFormat_def example_Queries_def
        example_client_def example_answer_row_def
        new_Instance_def row_Scan_def store_columns_def
        example_columns_def example_Make_def)
  have ctx: "RequestedDomain (GetInstance example_ctx) = ''tenant.example.com:8443''"
    by (simp add: example_ctx_def GetInstance_def RequestedDomain_def new_Instance_def)
  show ?thesis
    using C9_Host_is_supplied_host [of example_ToSql example_Make example_Queries example_ctx
      "''tenant.example.com:8443''"]
    by (simp add: by_id by_host ctx)
qed

section \<open>Further properties of the multi-row scanner\<close>

lemma loop_instances:
  "prepareInstancesQuery_loop rs acc c = Inr (insts, n) \<Longrightarrow> i \<in> set insts \<Longrightarrow>
     i \<in> set acc \<or> (\<exists>cols. i = store_columns new_Instance cols)"
proof (induction rs arbitrary: acc c)
  case Nil
  then show ?case by simp
next
  case (Cons r rs)
  show ?case
  proof (cases r)
    case (Inl err)
    with Cons.prems show ?thesis by simp
  next
    case (Inr v)
    obtain cols k where v: "v = (cols, k)" by (cases v)
    have "prepareInstancesQuery_loop rs (acc @ [store_columns new_Instance cols]) k = Inr (insts, n)"
      using Cons.prems(1) Inr v by simp
    from Cons.IH [OF this Cons.prems(2)] show ?thesis by auto
  qed
qed

text \<open>
  The multi-row scanner reads the language column into a local and does not store it:
  every instance of a successful \<open>SearchInstances\<close> result has the undefined tag as
  its default language, whatever the column holds.
\<close>

theorem search_leaves_language_undefined:
  assumes "fst (SearchInstances ToSql q ctx queries) = Inr r"
  shows "\<forall>i \<in> set (Instances r). DefaultLanguage i = Und"
proof
  fix i assume i: "i \<in> set (Instances r)"
  obtain rows where scan: "snd prepareInstancesQuery rows = Inr r"
    using assms SearchInstances_result by blast
  then obtain insts n where loop: "prepareInstancesQuery_loop (pending rows) [] 0 = Inr (insts, n)"
    and r: "Instances r = insts"
    by (auto simp: scan_rows_unfold split: sum.splits option.splits)
  from loop_instances [OF loop] i r obtain cols where "i = store_columns new_Instance cols"
    by auto
  then show "DefaultLanguage i = Und"
    by (simp add: store_columns_def new_Instance_def)
qed

theorem search_leaves_language_undefined_witness:
  "col_default_language example_columns = ''en''
   \<and> fst (SearchInstances example_ToSql example_Queries example_ctx no_filter) =
     Inr \<lparr>SearchResponse = \<lparr>Count = 1\<rparr>, Instances = [store_columns new_Instance example_columns]\<rparr>
   \<and> DefaultLanguage (store_columns new_Instance example_columns) = Und"
  using search_leaves_language_undefined [of example_ToSql example_Queries example_ctx no_filter
      "\<lparr>SearchResponse = \<lparr>Count = 1\<rparr>, Instances = [store_columns new_Instance example_columns]\<rparr>"]
  by (simp add: SearchInstances_def QueryContext_def case_prod_unfold example_ToSql_def
      example_Queries_def example_client_def example_answer_rows_def no_filter_def toQuery_def
      scan_rows_unfold rows_Close_def example_columns_def)

text \<open>
  The multi-row scanner does not consult \<^verbatim>\<open>rows.Err\<close>: when an error ended the
  iteration early and the rows read until then decode, it returns those rows, with the
  count of the last one, as a successful result.
\<close>

theorem iteration_error_not_consulted:
  assumes "pending rows = map Inr vs" and "rows_Err rows = Some e"
  shows "snd prepareInstancesQuery rows =
           Inr \<lparr>SearchResponse = \<lparr>Count = (if vs = [] then 0 else snd (last vs))\<rparr>,
                Instances = map (\<lambda>v. store_columns new_Instance (fst v)) vs\<rparr>"
proof -
  from assms(2) have released: "rows_Close rows = None"
    by (simp add: rows_Err_def rows_Close_def)
  show ?thesis
    by (simp add: scan_rows_unfold assms(1) loop_all_decoded released)
qed

theorem iteration_error_not_consulted_witness:
  "pending rows_broken_off = map Inr [(example_columns, 2)]
   \<and> rows_Err rows_broken_off = Some (ErrorString ''unexpected EOF'')
   \<and> snd prepareInstancesQuery rows_broken_off =
       Inr \<lparr>SearchResponse = \<lparr>Count = 2\<rparr>, Instances = [store_columns new_Instance example_columns]\<rparr>"
  using iteration_error_not_consulted [of rows_broken_off "[(example_columns, 2)]"
      "ErrorString ''unexpected EOF''"]
  by (simp add: rows_broken_off_def rows_Err_def)

end
